theory Spec2Isabelle
  imports Complex_Main "HOL-Library.Sublist"
begin

section \<open>The Pyodide entry module \<^verbatim>\<open>public/main.py\<close>\<close>

text \<open>
  The module imports the Pyodide bridge \<^verbatim>\<open>js\<close>, prints a line, and defines two
  top-level functions, \<^verbatim>\<open>greet\<close> and \<^verbatim>\<open>get_initial_courses\<close>. The only effect
  in the file is \<^verbatim>\<open>print\<close>, and the only statement that can raise is the import.

  A Python \<^verbatim>\<open>str\<close> is a \<open>string\<close>: the source never inspects single
  characters or lengths, it only concatenates, so nothing below depends on the
  alphabet. The standard output is the list of the texts handed to \<^verbatim>\<open>print\<close>,
  oldest first, one entry for each call (the newline that \<^verbatim>\<open>print\<close> adds is the
  separation of the entries).
\<close>

subsection \<open>Values, exceptions and effects\<close>

text \<open>
  The values that occur inside the course dictionaries: \<^verbatim>\<open>int\<close>, \<^verbatim>\<open>float\<close>
  and \<^verbatim>\<open>str\<close>. The two float literals of the source, \<^verbatim>\<open>3.0\<close> and \<^verbatim>\<open>1.0\<close>,
  are exact in binary floating point and no arithmetic is done on them, so a
  float is carried as the real number it denotes.
\<close>

datatype pyval = PyInt int | PyFloat real | PyStr string

text \<open>
  A dictionary literal is kept as the list of its key-value pairs in the order
  they are written; \<open>map_of\<close> is the lookup \<^verbatim>\<open>d[k]\<close> / \<^verbatim>\<open>d.get(k)\<close>.
\<close>

type_synonym course = "(string \<times> pyval) list"

datatype exn = ModuleNotFoundError string

type_synonym stdout = "string list"

type_synonym 'a py = "stdout \<Rightarrow> exn + ('a \<times> stdout)"

definition return_py :: "'a \<Rightarrow> 'a py" where
  "return_py v out = Inr (v, out)"

definition raise_py :: "exn \<Rightarrow> 'a py" where
  "raise_py e out = Inl e"

definition bind_py :: "'a py \<Rightarrow> ('a \<Rightarrow> 'b py) \<Rightarrow> 'b py" where
  "bind_py m f out = (case m out of Inl e \<Rightarrow> Inl e | Inr (v, out') \<Rightarrow> f v out')"

text \<open>\<^verbatim>\<open>print(s)\<close> with a single \<^verbatim>\<open>str\<close> argument: one more entry on the output.\<close>

definition print_py :: "string \<Rightarrow> unit py" where
  "print_py s out = Inr ((), out @ [s])"

text \<open>
  A replacement field \<^verbatim>\<open>{name}\<close> of an f-string with no conversion and no
  format specification is \<^verbatim>\<open>format(name, "")\<close>, which for a \<^verbatim>\<open>str\<close> is the
  string itself.
\<close>

definition format_str :: "string \<Rightarrow> string" where
  "format_str s = s"

subsection \<open>The module body\<close>

text \<open>
  \<^verbatim>\<open>import js\<close> followed by the \<^verbatim>\<open>print\<close> at module level. Whether the bridge
  module can be imported is a fact of the host, taken as a parameter.
\<close>

definition import_js :: "bool \<Rightarrow> unit py" where
  "import_js js_available =
     (if js_available then return_py () else raise_py (ModuleNotFoundError ''js''))"

definition main_module :: "bool \<Rightarrow> unit py" where
  "main_module js_available =
     bind_py (import_js js_available)
       (\<lambda>_. print_py ''Python main.py loaded successfully via Pyodide!'')"

subsection \<open>\<^verbatim>\<open>greet\<close>\<close>

text \<open>
  \<^verbatim>\<open>
  def greet(name):
      return f"Hello, {name}, from Python!"
  \<close>
\<close>

definition greet :: "string \<Rightarrow> string py" where
  "greet name = return_py (concat [''Hello, '', format_str name, '', from Python!''])"

subsection \<open>\<^verbatim>\<open>get_initial_courses\<close>\<close>

text \<open>
  \<^verbatim>\<open>
  def get_initial_courses():
      print("Python: get_initial_courses called")
      return [
          {"id": 1, "subject": "TEST101", "subject_title": "Introduction to Testing", "credited_units": 3.0},
          {"id": 2, "subject": "PYD200", "subject_title": "Pyodide Basics", "credited_units": 1.0},
      ]
  \<close>
\<close>

definition get_initial_courses :: "course list py" where
  "get_initial_courses =
     bind_py (print_py ''Python: get_initial_courses called'')
       (\<lambda>_. return_py
          [ [(''id'', PyInt 1), (''subject'', PyStr ''TEST101''),
             (''subject_title'', PyStr ''Introduction to Testing''),
             (''credited_units'', PyFloat 3.0)],
            [(''id'', PyInt 2), (''subject'', PyStr ''PYD200''),
             (''subject_title'', PyStr ''Pyodide Basics''),
             (''credited_units'', PyFloat 1.0)] ])"

subsection \<open>Calling a function several times\<close>

text \<open>
  A host that calls the same parameterless function \<open>n\<close> times in a row, each
  call starting on the output the previous one left, and keeps the results in
  call order.
\<close>

fun call_times :: "nat \<Rightarrow> 'a py \<Rightarrow> 'a list py" where
  "call_times 0 m = return_py []"
| "call_times (Suc n) m =
     bind_py m (\<lambda>v. bind_py (call_times n m) (\<lambda>vs. return_py (v # vs)))"

text \<open>Reading a field of every record of a list, as \<^verbatim>\<open>[c.get(k) for c in cs]\<close>.\<close>

definition field_values :: "string \<Rightarrow> course list \<Rightarrow> pyval option list" where
  "field_values k cs = map (\<lambda>c. map_of c k) cs"

fun is_int :: "pyval option \<Rightarrow> bool" where
  "is_int (Some (PyInt n)) = True"
| "is_int _ = False"

section \<open>Properties\<close>

subsection \<open>Helper facts\<close>

lemma greet_value:
  "greet name out = Inr (''Hello, '' @ name @ '', from Python!'', out)"
  by (simp add: greet_def return_py_def format_str_def)

lemma get_initial_courses_value:
  "get_initial_courses out =
     Inr ([ [(''id'', PyInt 1), (''subject'', PyStr ''TEST101''),
             (''subject_title'', PyStr ''Introduction to Testing''),
             (''credited_units'', PyFloat 3.0)],
            [(''id'', PyInt 2), (''subject'', PyStr ''PYD200''),
             (''subject_title'', PyStr ''Pyodide Basics''),
             (''credited_units'', PyFloat 1.0)] ],
          out @ [''Python: get_initial_courses called''])"
  by (simp add: get_initial_courses_def bind_py_def print_py_def return_py_def)

lemma call_times_const:
  assumes step: "\<And>out. m out = Inr (v, out @ [s])"
  shows "call_times n m out = Inr (replicate n v, out @ replicate n s)"
proof (induction n arbitrary: out)
  case 0
  show ?case by (simp add: return_py_def)
next
  case (Suc n)
  have "call_times (Suc n) m out =
          (case call_times n m (out @ [s]) of
             Inl e \<Rightarrow> Inl e
           | Inr (vs, out') \<Rightarrow> Inr (v # vs, out'))"
    by (simp add: bind_py_def step return_py_def split: sum.splits)
  also have "\<dots> = Inr (v # replicate n v, (out @ [s]) @ replicate n s)"
    by (simp add: Suc.IH)
  finally show ?case
    by (simp add: replicate_append_same)
qed

subsection \<open>The course list\<close>

text \<open>
  C1. Whatever the number of calls (none, one, several) and whatever was printed
  before, every call of \<^verbatim>\<open>get_initial_courses\<close> returns one and the same list:
  two records, the first with id 1, subject TEST101 and 3.0 credited units, the
  second with id 2, subject PYD200 and 1.0 credited units, in that order.
\<close>

theorem get_initial_courses_fixed:
  "\<exists>cs. length cs = 2
     \<and> field_values ''id'' cs = [Some (PyInt 1), Some (PyInt 2)]
     \<and> field_values ''subject'' cs = [Some (PyStr ''TEST101''), Some (PyStr ''PYD200'')]
     \<and> field_values ''credited_units'' cs = [Some (PyFloat 3.0), Some (PyFloat 1.0)]
     \<and> (\<forall>n out. \<exists>out'. call_times n get_initial_courses out = Inr (replicate n cs, out'))"
proof -
  let ?cs = "[ [(''id'', PyInt 1), (''subject'', PyStr ''TEST101''),
                (''subject_title'', PyStr ''Introduction to Testing''),
                (''credited_units'', PyFloat 3.0)],
               [(''id'', PyInt 2), (''subject'', PyStr ''PYD200''),
                (''subject_title'', PyStr ''Pyodide Basics''),
                (''credited_units'', PyFloat 1.0)] ]"
  have calls: "\<forall>n out. \<exists>out'. call_times n get_initial_courses out = Inr (replicate n ?cs, out')"
    using call_times_const [of get_initial_courses ?cs, OF get_initial_courses_value]
    by blast
  have "length ?cs = 2"
    by simp
  moreover have "field_values ''id'' ?cs = [Some (PyInt 1), Some (PyInt 2)]"
    by (simp add: field_values_def)
  moreover have "field_values ''subject'' ?cs =
      [Some (PyStr ''TEST101''), Some (PyStr ''PYD200'')]"
    by (simp add: field_values_def)
  moreover have "field_values ''credited_units'' ?cs =
      [Some (PyFloat 3.0), Some (PyFloat 1.0)]"
    by (simp add: field_values_def)
  ultimately show ?thesis
    using calls by blast
qed

text \<open>
  C6. Each call of \<^verbatim>\<open>get_initial_courses\<close> adds exactly one entry, the diagnostic
  text, to the output and returns a value; \<open>n\<close> calls in a row add exactly \<open>n\<close>
  such entries and nothing else.
\<close>

theorem get_initial_courses_prints_once:
  "(\<exists>cs. get_initial_courses out =
            Inr (cs, out @ [''Python: get_initial_courses called'']))
   \<and> (\<exists>css. call_times n get_initial_courses out =
            Inr (css, out @ replicate n ''Python: get_initial_courses called''))"
proof
  show "\<exists>cs. get_initial_courses out =
            Inr (cs, out @ [''Python: get_initial_courses called''])"
    by (simp add: get_initial_courses_value)
next
  show "\<exists>css. call_times n get_initial_courses out =
            Inr (css, out @ replicate n ''Python: get_initial_courses called'')"
    using call_times_const [OF get_initial_courses_value, of n out]
    by blast
qed

text \<open>
  C7. In the list a call of \<^verbatim>\<open>get_initial_courses\<close> returns, every record has an
  \<^verbatim>\<open>id\<close> that is an integer, and no two records have the same \<^verbatim>\<open>id\<close>.
\<close>

theorem course_ids_distinct_ints:
  "\<exists>cs out'. get_initial_courses out = Inr (cs, out')
     \<and> list_all is_int (field_values ''id'' cs)
     \<and> distinct (field_values ''id'' cs)"
  by (simp add: get_initial_courses_value field_values_def)

subsection \<open>The greeting\<close>

text \<open>
  C2. \<^verbatim>\<open>greet("Ada")\<close> returns exactly \<^verbatim>\<open>"Hello, Ada, from Python!"\<close>.
\<close>

theorem greet_Ada:
  "\<exists>out'. greet ''Ada'' out = Inr (''Hello, Ada, from Python!'', out')"
  by (simp add: greet_value)

text \<open>
  C3. For every name, the empty one included, the greeting is a non-empty string
  and has the name in it as a contiguous substring.
\<close>

theorem greet_contains_name:
  "\<exists>s out'. greet name out = Inr (s, out') \<and> s \<noteq> [] \<and> sublist name s"
proof -
  have "sublist name (''Hello, '' @ name @ '', from Python!'')"
    by (rule sublist_appendI)
  then show ?thesis
    by (simp add: greet_value)
qed

text \<open>
  C9. For every name the greeting is the fixed text \<^verbatim>\<open>"Hello, "\<close>, then the
  name, then the fixed text \<^verbatim>\<open>", from Python!"\<close>.
\<close>

theorem greet_concat:
  "\<exists>out'. greet name out = Inr (''Hello, '' @ name @ '', from Python!'', out')"
  by (simp add: greet_value)

text \<open>
  C10. The greeting is injective: two different names give two different
  greetings (and both calls do return one).
\<close>

theorem greet_injective:
  "name1 \<noteq> name2 \<Longrightarrow>
     \<exists>s1 s2 out1' out2'. greet name1 out1 = Inr (s1, out1')
        \<and> greet name2 out2 = Inr (s2, out2') \<and> s1 \<noteq> s2"
  by (simp add: greet_value)

theorem greet_injective_witness:
  "''Ada'' \<noteq> ''Bob''
   \<and> (\<exists>s1 s2 out1' out2'. greet ''Ada'' [] = Inr (s1, out1')
        \<and> greet ''Bob'' [''x''] = Inr (s2, out2') \<and> s1 \<noteq> s2)"
proof -
  have ne: "''Ada'' \<noteq> ''Bob''"
    by simp
  show ?thesis
    using ne greet_injective [OF ne, of "[]" "[''x'']"] by blast
qed

subsection \<open>Errors and effects\<close>

text \<open>
  C4. Neither function raises: for every name and on every output state, the
  result of \<^verbatim>\<open>greet\<close> and the result of \<^verbatim>\<open>get_initial_courses\<close> is not an
  exception.
\<close>

theorem no_exception:
  "\<not> isl (greet name out) \<and> \<not> isl (get_initial_courses out)"
  by (simp add: greet_value get_initial_courses_value)

text \<open>
  C5. A call of \<^verbatim>\<open>greet\<close> has no effect: it returns a value and leaves the
  output exactly as it found it.
\<close>

theorem greet_no_effect:
  "\<exists>s. greet name out = Inr (s, out)"
  by (simp add: greet_value)

end
